theory Spec2Isabelle
  imports Main
begin

section \<open>Access-key handlers of api/projects/keys.go\<close>

subsection \<open>Data model\<close>

text \<open>
  The handlers of \<^verbatim>\<open>keys.go\<close> work on values of package \<^verbatim>\<open>db\<close>. A Go pointer field
  (\<^verbatim>\<open>*int\<close>, \<^verbatim>\<open>*string\<close>) is an option: \<open>None\<close> is the nil pointer.
\<close>

text \<open>\<^verbatim>\<open>db.Project\<close>: the handlers read its \<^verbatim>\<open>ID\<close> only.\<close>

record Project =
  Project_ID :: int

text \<open>
  Modelled from the spec: the declaration of \<^verbatim>\<open>db.AccessKey\<close> is not part of
  \<^verbatim>\<open>keys.go\<close>. The fields are those of the spec's data model; their types are the ones
  the handlers use them at (\<^verbatim>\<open>key.ProjectID == nil\<close>, \<^verbatim>\<open>*key.Secret\<close>, \<^verbatim>\<open>key.Name\<close> in a
  string concatenation, \<^verbatim>\<open>&newKey.ID\<close> for an \<^verbatim>\<open>*int\<close>).
\<close>

record AccessKey =
  ID :: int
  Name :: string
  Type :: string
  ProjectID :: "int option"
  Secret :: "string option"
  Removed :: bool

text \<open>\<^verbatim>\<open>db.Event\<close>, with the four fields the handlers fill in.\<close>

record Event =
  Event_ProjectID :: "int option"
  ObjectType :: "string option"
  ObjectID :: "int option"
  Description :: "string option"

text \<open>
  An \<^verbatim>\<open>error\<close> returned by the store. The handlers compare it with nil and, in
  \<^verbatim>\<open>RemoveKey\<close>, with \<^verbatim>\<open>db.ErrInvalidOperation\<close>; every other error is opaque to them.
\<close>

datatype db_error = ErrInvalidOperation | ErrOther string

text \<open>The run-time panic of dereferencing a nil pointer.\<close>

datatype panic = NilPointerDereference

subsection \<open>Effects\<close>

text \<open>
  What a handler writes to its \<^verbatim>\<open>http.ResponseWriter\<close>: \<^verbatim>\<open>w.WriteHeader(code)\<close>,
  \<^verbatim>\<open>helpers.WriteJSON(w, code, map)\<close> with the map as an association list, and
  \<^verbatim>\<open>helpers.WriteError(w, err)\<close>.
\<close>

datatype json_value = JString string | JBool bool

datatype http_write =
  WriteHeader nat
| WriteJSON nat "(string \<times> json_value) list"
| WriteError db_error

text \<open>One entry per call of a method of \<^verbatim>\<open>helpers.Store(r)\<close>, with its arguments.\<close>

datatype store_call =
  CreateAccessKeyCall AccessKey
| UpdateAccessKeyCall AccessKey
| DeleteAccessKeySoftCall int int
| DeleteAccessKeyCall int int
| CreateEventCall Event

text \<open>
  The store is an external collaborator: its five methods are parameters of the model,
  each a function of the store's own state \<open>'s\<close>.
\<close>

record 's Store =
  CreateAccessKey :: "AccessKey \<Rightarrow> 's \<Rightarrow> (db_error + AccessKey) \<times> 's"
  UpdateAccessKey :: "AccessKey \<Rightarrow> 's \<Rightarrow> db_error option \<times> 's"
  DeleteAccessKeySoft :: "int \<Rightarrow> int \<Rightarrow> 's \<Rightarrow> db_error option \<times> 's"
  DeleteAccessKey :: "int \<Rightarrow> int \<Rightarrow> 's \<Rightarrow> db_error option \<times> 's"
  CreateEvent :: "Event \<Rightarrow> 's \<Rightarrow> (db_error + Event) \<times> 's"

text \<open>
  Everything a handler can change: the store's state, the trace of store calls, the
  errors given to \<^verbatim>\<open>log.Error\<close>, and the writes to the response, each in order.
\<close>

record 's world =
  db :: 's
  calls :: "store_call list"
  logged :: "db_error list"
  written :: "http_write list"

definition write_header :: "nat \<Rightarrow> 's world \<Rightarrow> 's world" where
  "write_header code w = w\<lparr>written := written w @ [WriteHeader code]\<rparr>"

definition write_json :: "nat \<Rightarrow> (string \<times> json_value) list \<Rightarrow> 's world \<Rightarrow> 's world" where
  "write_json code obj w = w\<lparr>written := written w @ [WriteJSON code obj]\<rparr>"

definition write_error :: "db_error \<Rightarrow> 's world \<Rightarrow> 's world" where
  "write_error err w = w\<lparr>written := written w @ [WriteError err]\<rparr>"

definition log_error :: "db_error \<Rightarrow> 's world \<Rightarrow> 's world" where
  "log_error err w = w\<lparr>logged := logged w @ [err]\<rparr>"

definition store_CreateAccessKey ::
  "'s Store \<Rightarrow> AccessKey \<Rightarrow> 's world \<Rightarrow> (db_error + AccessKey) \<times> 's world" where
  "store_CreateAccessKey st key w =
     (case CreateAccessKey st key (db w) of
        (r, s) \<Rightarrow> (r, w\<lparr>db := s, calls := calls w @ [CreateAccessKeyCall key]\<rparr>))"

definition store_UpdateAccessKey ::
  "'s Store \<Rightarrow> AccessKey \<Rightarrow> 's world \<Rightarrow> db_error option \<times> 's world" where
  "store_UpdateAccessKey st key w =
     (case UpdateAccessKey st key (db w) of
        (r, s) \<Rightarrow> (r, w\<lparr>db := s, calls := calls w @ [UpdateAccessKeyCall key]\<rparr>))"

definition store_DeleteAccessKeySoft ::
  "'s Store \<Rightarrow> int \<Rightarrow> int \<Rightarrow> 's world \<Rightarrow> db_error option \<times> 's world" where
  "store_DeleteAccessKeySoft st pid kid w =
     (case DeleteAccessKeySoft st pid kid (db w) of
        (r, s) \<Rightarrow> (r, w\<lparr>db := s, calls := calls w @ [DeleteAccessKeySoftCall pid kid]\<rparr>))"

definition store_DeleteAccessKey ::
  "'s Store \<Rightarrow> int \<Rightarrow> int \<Rightarrow> 's world \<Rightarrow> db_error option \<times> 's world" where
  "store_DeleteAccessKey st pid kid w =
     (case DeleteAccessKey st pid kid (db w) of
        (r, s) \<Rightarrow> (r, w\<lparr>db := s, calls := calls w @ [DeleteAccessKeyCall pid kid]\<rparr>))"

definition store_CreateEvent ::
  "'s Store \<Rightarrow> Event \<Rightarrow> 's world \<Rightarrow> (db_error + Event) \<times> 's world" where
  "store_CreateEvent st ev w =
     (case CreateEvent st ev (db w) of
        (r, s) \<Rightarrow> (r, w\<lparr>db := s, calls := calls w @ [CreateEventCall ev]\<rparr>))"

subsection \<open>Request inputs\<close>

text \<open>
  \<^verbatim>\<open>r.URL.Query()\<close> is a \<^verbatim>\<open>url.Values\<close>, a map from a parameter name to its values;
  \<^verbatim>\<open>Get\<close> returns the first value of the name, and the empty string when there is none.
\<close>

type_synonym url_values = "string \<rightharpoonup> string list"

definition Get :: "url_values \<Rightarrow> string \<Rightarrow> string" where
  "Get q name = (case q name of None \<Rightarrow> [] | Some [] \<Rightarrow> [] | Some (v # _) \<Rightarrow> v)"

text \<open>The test \<^verbatim>\<open>key.Secret == nil || len(*key.Secret) == 0\<close>.\<close>

definition secret_empty :: "AccessKey \<Rightarrow> bool" where
  "secret_empty key = (case Secret key of None \<Rightarrow> True | Some s \<Rightarrow> length s = 0)"

text \<open>
  The \<^verbatim>\<open>switch key.Type\<close> that \<^verbatim>\<open>AddKey\<close> (lines 74 to 89) and \<^verbatim>\<open>UpdateKey\<close> (lines 127
  to 142) both contain, word for word: \<open>Some msg\<close> when the handler writes the
  bad-request answer with that message and returns, \<open>None\<close> when it goes on.
\<close>

definition switch_Type :: "AccessKey \<Rightarrow> string option" where
  "switch_Type key =
     (if Type key = ''aws'' \<or> Type key = ''gcloud'' \<or> Type key = ''do'' then None
      else if Type key = ''ssh'' then
        (if secret_empty key then Some ''SSH Secret empty'' else None)
      else Some ''Invalid key type'')"

definition newline :: string where
  "newline = [CHR 0x0A]"

subsection \<open>AddKey\<close>

text \<open>
  The handlers take what the request context and \<^verbatim>\<open>helpers.Bind\<close> hand them: the project
  (\<^verbatim>\<open>context.Get(r, "project")\<close>), the key that \<^verbatim>\<open>KeyMiddleware\<close> has loaded from the store
  (\<^verbatim>\<open>context.Get(r, "accessKey")\<close>), and the decoded body (\<open>None\<close> when \<^verbatim>\<open>Bind\<close> returns
  false; the handler then returns at once, and what \<^verbatim>\<open>Bind\<close> itself answers is outside
  \<^verbatim>\<open>keys.go\<close>). A handler that dereferences a nil pointer ends in \<open>Inl\<close> of the panic; it
  has made no store call and written nothing by then.
\<close>

definition AddKey ::
  "'s Store \<Rightarrow> Project \<Rightarrow> AccessKey option \<Rightarrow> 's world \<Rightarrow> panic + 's world" where
  "AddKey st project body w =
     (case body of
        None \<Rightarrow> Inr w
      | Some key \<Rightarrow>
          if ProjectID key = None \<or> ProjectID key \<noteq> Some (Project_ID project) then
            Inr (write_json 400
              [(''error'', JString ''Project ID in body and URL must be the same'')] w)
          else
            (case switch_Type key of
               Some msg \<Rightarrow> Inr (write_json 400 [(''error'', JString msg)] w)
             | None \<Rightarrow>
                 (case Secret key of
                    None \<Rightarrow> Inl NilPointerDereference
                  | Some s \<Rightarrow>
                      (let key = key\<lparr>Secret := Some (s @ newline)\<rparr> in
                       case store_CreateAccessKey st key w of
                         (Inl err, w1) \<Rightarrow> Inr (write_error err w1)
                       | (Inr newKey, w1) \<Rightarrow>
                           (let objType = ''key'';
                                desc = ''Access Key '' @ Name key @ '' created''
                            in case store_CreateEvent st
                                 \<lparr>Event_ProjectID = ProjectID newKey,
                                  ObjectType = Some objType,
                                  ObjectID = Some (ID newKey),
                                  Description = Some desc\<rparr> w1 of
                                 (Inl err, w2) \<Rightarrow> Inr (write_header 204 (log_error err w2))
                               | (Inr _, w2) \<Rightarrow> Inr (write_header 204 w2))))))"

subsection \<open>UpdateKey\<close>

text \<open>
  Lines 144 to 150, the payload after the secret has been settled: the stored secret of
  the existing key when the payload has none, the payload's own with a newline otherwise.
\<close>

definition merge_secret :: "AccessKey \<Rightarrow> AccessKey \<Rightarrow> AccessKey" where
  "merge_secret oldKey key =
     (case Secret key of
        None \<Rightarrow> key\<lparr>Secret := Secret oldKey\<rparr>
      | Some s \<Rightarrow>
          if length s = 0 then key\<lparr>Secret := Secret oldKey\<rparr>
          else key\<lparr>Secret := Some (s @ newline)\<rparr>)"

definition UpdateKey ::
  "'s Store \<Rightarrow> AccessKey \<Rightarrow> AccessKey option \<Rightarrow> 's world \<Rightarrow> 's world" where
  "UpdateKey st oldKey body w =
     (case body of
        None \<Rightarrow> w
      | Some key \<Rightarrow>
          (case switch_Type key of
             Some msg \<Rightarrow> write_json 400 [(''error'', JString msg)] w
           | None \<Rightarrow>
               (let key = merge_secret oldKey key
                in case store_UpdateAccessKey st key w of
                     (Some err, w1) \<Rightarrow> write_error err w1
                   | (None, w1) \<Rightarrow>
                       (let desc = ''Access Key '' @ Name key @ '' updated'';
                            objType = ''key''
                        in case store_CreateEvent st
                             \<lparr>Event_ProjectID = ProjectID oldKey,
                              ObjectType = Some objType,
                              ObjectID = Some (ID oldKey),
                              Description = Some desc\<rparr> w1 of
                             (Inl err, w2) \<Rightarrow> log_error err w2
                           | (Inr _, w2) \<Rightarrow> write_header 204 w2))))"

subsection \<open>RemoveKey\<close>

text \<open>Lines 196 to 212: what \<^verbatim>\<open>RemoveKey\<close> does with the error of either deletion.\<close>

definition RemoveKey_finish ::
  "'s Store \<Rightarrow> AccessKey \<Rightarrow> db_error option \<Rightarrow> 's world \<Rightarrow> 's world" where
  "RemoveKey_finish st key err w =
     (case err of
        Some e \<Rightarrow> write_error e w
      | None \<Rightarrow>
          (let desc = ''Access Key '' @ Name key @ '' deleted''
           in case store_CreateEvent st
                \<lparr>Event_ProjectID = ProjectID key,
                 ObjectType = None,
                 ObjectID = None,
                 Description = Some desc\<rparr> w of
                (Inl e, w1) \<Rightarrow> write_header 204 (log_error e w1)
              | (Inr _, w1) \<Rightarrow> write_header 204 w1))"

definition RemoveKey ::
  "'s Store \<Rightarrow> AccessKey \<Rightarrow> url_values \<Rightarrow> 's world \<Rightarrow> panic + 's world" where
  "RemoveKey st key query w =
     (let softDeletion = (length (Get query ''setRemoved'') = 0) in
      if softDeletion then
        (case ProjectID key of
           None \<Rightarrow> Inl NilPointerDereference
         | Some pid \<Rightarrow>
             (case store_DeleteAccessKeySoft st pid (ID key) w of
                (err, w1) \<Rightarrow> Inr (RemoveKey_finish st key err w1)))
      else
        (case ProjectID key of
           None \<Rightarrow> Inl NilPointerDereference
         | Some pid \<Rightarrow>
             (case store_DeleteAccessKey st pid (ID key) w of
                (err, w1) \<Rightarrow>
                  if err = Some ErrInvalidOperation then
                    Inr (write_json 400
                      [(''error'', JString ''Inventory is in use by one or more templates''),
                       (''inUse'', JBool True)] w1)
                  else Inr (RemoveKey_finish st key err w1))))"

subsection \<open>A store stub and example requests\<close>

text \<open>
  A store to run the handlers on: its state is the next free key ID. Creation assigns
  that ID, updates and soft deletions succeed, a hard deletion answers \<open>del\<close> and the
  recording of an event answers \<open>ev\<close> (\<open>None\<close>: no error).
\<close>

definition stub_store :: "db_error option \<Rightarrow> db_error option \<Rightarrow> int Store" where
  "stub_store del ev =
     \<lparr>CreateAccessKey = (\<lambda>key s. (Inr (key\<lparr>ID := s\<rparr>), s + 1)),
      UpdateAccessKey = (\<lambda>key s. (None, s)),
      DeleteAccessKeySoft = (\<lambda>pid kid s. (None, s)),
      DeleteAccessKey = (\<lambda>pid kid s. (del, s)),
      CreateEvent = (\<lambda>e s. (case ev of None \<Rightarrow> Inr e | Some err \<Rightarrow> Inl err, s))\<rparr>"

definition w0 :: "int world" where
  "w0 = \<lparr>db = 10, calls = [], logged = [], written = []\<rparr>"

text \<open>The key the middleware has resolved in the examples: key 5 of project 7.\<close>

definition key5 :: AccessKey where
  "key5 = \<lparr>ID = 5, Name = ''deploy'', Type = ''ssh'', ProjectID = Some 7,
           Secret = Some (''KEY'' @ newline), Removed = False\<rparr>"

text \<open>A payload of a type outside the four, sent under project 9.\<close>

definition ftp_key :: AccessKey where
  "ftp_key = \<lparr>ID = 0, Name = ''files'', Type = ''ftp'', ProjectID = Some 9,
              Secret = Some ''pw'', Removed = False\<rparr>"

text \<open>The spec's example: an ssh key with the secret \<open>abc\<close>, sent under project 7.\<close>

definition abc_key :: AccessKey where
  "abc_key = \<lparr>ID = 0, Name = ''deploy'', Type = ''ssh'', ProjectID = Some 7,
              Secret = Some ''abc'', Removed = False\<rparr>"

text \<open>
  Update payloads for key 5: a rename of an ssh key and of an aws key that send no secret,
  and a payload that names project 8 instead of the key's project 7.
\<close>
definition ssh_rename :: AccessKey where
  "ssh_rename = \<lparr>ID = 5, Name = ''renamed'', Type = ''ssh'', ProjectID = Some 7,
                 Secret = None, Removed = False\<rparr>"

definition aws_rename :: AccessKey where
  "aws_rename = \<lparr>ID = 5, Name = ''renamed'', Type = ''aws'', ProjectID = Some 7,
                 Secret = None, Removed = False\<rparr>"

definition moved_key :: AccessKey where
  "moved_key = \<lparr>ID = 5, Name = ''deploy'', Type = ''aws'', ProjectID = Some 8,
                Secret = None, Removed = False\<rparr>"

text \<open>The error of a store that cannot record events.\<close>

definition disk_full :: db_error where
  "disk_full = ErrOther ''disk full''"

text \<open>An update payload whose identity fields differ from those of key 5.\<close>

definition other_identity :: AccessKey where
  "other_identity = \<lparr>ID = 99, Name = ''renamed'', Type = ''gcloud'', ProjectID = Some 42,
                     Secret = Some ''token'', Removed = False\<rparr>"


section \<open>The paths through the handlers\<close>

text \<open>The effects of the handlers and of the store calls, to unfold together.\<close>

lemmas effects = write_header_def write_json_def write_error_def log_error_def
  store_CreateAccessKey_def store_UpdateAccessKey_def store_DeleteAccessKeySoft_def
  store_DeleteAccessKey_def store_CreateEvent_def

lemma switch_Type_invalid:
  "Type key \<notin> {''aws'', ''gcloud'', ''do'', ''ssh''} \<Longrightarrow> switch_Type key = Some ''Invalid key type''"
  by (simp add: switch_Type_def)

lemma switch_Type_ssh_empty:
  "Type key = ''ssh'' \<Longrightarrow> Secret key = None \<or> Secret key = Some [] \<Longrightarrow>
   switch_Type key = Some ''SSH Secret empty''"
  by (auto simp: switch_Type_def secret_empty_def)


lemma switch_Type_cloud:
  "Type key \<in> {''aws'', ''gcloud'', ''do''} \<Longrightarrow> switch_Type key = None"
  by (auto simp: switch_Type_def)

lemma AddKey_project_mismatch:
  "ProjectID key \<noteq> Some (Project_ID project) \<Longrightarrow>
   AddKey st project (Some key) w =
     Inr (w\<lparr>written := written w @
       [WriteJSON 400 [(''error'', JString ''Project ID in body and URL must be the same'')]]\<rparr>)"
  by (simp add: AddKey_def write_json_def)

lemma AddKey_invalid:
  "switch_Type key = Some msg \<Longrightarrow>
   AddKey st project (Some key) w =
     Inr (w\<lparr>written := written w @ [WriteJSON 400 [(''error'', JString
       (if ProjectID key = Some (Project_ID project) then msg
        else ''Project ID in body and URL must be the same''))]]\<rparr>)"
  by (simp add: AddKey_def write_json_def)

lemma UpdateKey_invalid:
  "switch_Type key = Some msg \<Longrightarrow>
   UpdateKey st oldKey (Some key) w =
     w\<lparr>written := written w @ [WriteJSON 400 [(''error'', JString msg)]]\<rparr>"
  by (simp add: UpdateKey_def write_json_def)

lemma AddKey_nil_secret:
  "ProjectID key = Some (Project_ID project) \<Longrightarrow> switch_Type key = None \<Longrightarrow>
   Secret key = None \<Longrightarrow> AddKey st project (Some key) w = Inl NilPointerDereference"
  by (simp add: AddKey_def)


lemma AddKey_created:
  "ProjectID key = Some (Project_ID project) \<Longrightarrow> switch_Type key = None \<Longrightarrow>
   Secret key = Some s \<Longrightarrow>
   CreateAccessKey st (key\<lparr>Secret := Some (s @ newline)\<rparr>) (db w) = (Inr newKey, s1) \<Longrightarrow>
   CreateEvent st
     \<lparr>Event_ProjectID = ProjectID newKey, ObjectType = Some ''key'',
      ObjectID = Some (ID newKey),
      Description = Some (''Access Key '' @ Name key @ '' created'')\<rparr> s1 = (r, s2) \<Longrightarrow>
   AddKey st project (Some key) w =
     Inr (w\<lparr>db := s2,
            calls := calls w @
              [CreateAccessKeyCall (key\<lparr>Secret := Some (s @ newline)\<rparr>),
               CreateEventCall
                 \<lparr>Event_ProjectID = ProjectID newKey, ObjectType = Some ''key'',
                  ObjectID = Some (ID newKey),
                  Description = Some (''Access Key '' @ Name key @ '' created'')\<rparr>],
            logged := logged w @ (case r of Inl e \<Rightarrow> [e] | Inr _ \<Rightarrow> []),
            written := written w @ [WriteHeader 204]\<rparr>)"
  by (cases r) (simp_all add: AddKey_def effects)

lemma UpdateKey_store_error:
  "switch_Type key = None \<Longrightarrow>
   UpdateAccessKey st (merge_secret oldKey key) (db w) = (Some err, s1) \<Longrightarrow>
   UpdateKey st oldKey (Some key) w =
     w\<lparr>db := s1,
       calls := calls w @ [UpdateAccessKeyCall (merge_secret oldKey key)],
       written := written w @ [WriteError err]\<rparr>"
  by (simp add: UpdateKey_def effects)

lemma Name_merge_secret: "Name (merge_secret oldKey key) = Name key"
  by (simp add: merge_secret_def split: option.splits)

lemma UpdateKey_updated:
  "switch_Type key = None \<Longrightarrow>
   UpdateAccessKey st (merge_secret oldKey key) (db w) = (None, s1) \<Longrightarrow>
   CreateEvent st
     \<lparr>Event_ProjectID = ProjectID oldKey, ObjectType = Some ''key'',
      ObjectID = Some (ID oldKey),
      Description = Some (''Access Key '' @ Name key @ '' updated'')\<rparr> s1 = (r, s2) \<Longrightarrow>
   UpdateKey st oldKey (Some key) w =
     w\<lparr>db := s2,
       calls := calls w @
         [UpdateAccessKeyCall (merge_secret oldKey key),
          CreateEventCall
            \<lparr>Event_ProjectID = ProjectID oldKey, ObjectType = Some ''key'',
             ObjectID = Some (ID oldKey),
             Description = Some (''Access Key '' @ Name key @ '' updated'')\<rparr>],
       logged := logged w @ (case r of Inl e \<Rightarrow> [e] | Inr _ \<Rightarrow> []),
       written := written w @ (case r of Inl e \<Rightarrow> [] | Inr _ \<Rightarrow> [WriteHeader 204])\<rparr>"
  by (cases r) (simp_all add: UpdateKey_def effects Name_merge_secret)

lemma RemoveKey_finish_error:
  "RemoveKey_finish st key (Some err) w = w\<lparr>written := written w @ [WriteError err]\<rparr>"
  by (simp add: RemoveKey_finish_def effects)

lemma RemoveKey_finish_deleted:
  "CreateEvent st
     \<lparr>Event_ProjectID = ProjectID key, ObjectType = None, ObjectID = None,
      Description = Some (''Access Key '' @ Name key @ '' deleted'')\<rparr> (db w) = (r, s2) \<Longrightarrow>
   RemoveKey_finish st key None w =
     w\<lparr>db := s2,
       calls := calls w @
         [CreateEventCall
            \<lparr>Event_ProjectID = ProjectID key, ObjectType = None, ObjectID = None,
             Description = Some (''Access Key '' @ Name key @ '' deleted'')\<rparr>],
       logged := logged w @ (case r of Inl e \<Rightarrow> [e] | Inr _ \<Rightarrow> []),
       written := written w @ [WriteHeader 204]\<rparr>"
  by (cases r) (simp_all add: RemoveKey_finish_def effects)

lemma RemoveKey_soft:
  "ProjectID key = Some pid \<Longrightarrow> Get query ''setRemoved'' = [] \<Longrightarrow>
   DeleteAccessKeySoft st pid (ID key) (db w) = (err, s1) \<Longrightarrow>
   RemoveKey st key query w =
     Inr (RemoveKey_finish st key err
       (w\<lparr>db := s1, calls := calls w @ [DeleteAccessKeySoftCall pid (ID key)]\<rparr>))"
  by (simp add: RemoveKey_def effects)

lemma RemoveKey_hard:
  "ProjectID key = Some pid \<Longrightarrow> Get query ''setRemoved'' \<noteq> [] \<Longrightarrow>
   DeleteAccessKey st pid (ID key) (db w) = (err, s1) \<Longrightarrow>
   err \<noteq> Some ErrInvalidOperation \<Longrightarrow>
   RemoveKey st key query w =
     Inr (RemoveKey_finish st key err
       (w\<lparr>db := s1, calls := calls w @ [DeleteAccessKeyCall pid (ID key)]\<rparr>))"
  by (simp add: RemoveKey_def effects)

lemma RemoveKey_in_use:
  "ProjectID key = Some pid \<Longrightarrow> Get query ''setRemoved'' \<noteq> [] \<Longrightarrow>
   DeleteAccessKey st pid (ID key) (db w) = (Some ErrInvalidOperation, s1) \<Longrightarrow>
   RemoveKey st key query w =
     Inr (w\<lparr>db := s1,
            calls := calls w @ [DeleteAccessKeyCall pid (ID key)],
            written := written w @
              [WriteJSON 400
                 [(''error'', JString ''Inventory is in use by one or more templates''),
                  (''inUse'', JBool True)]]\<rparr>)"
  by (simp add: RemoveKey_def effects)


lemma UpdateKey_calls:
  assumes "switch_Type key = None"
  shows "\<exists>r. calls (UpdateKey st oldKey (Some key) w) =
           calls w @ UpdateAccessKeyCall (merge_secret oldKey key) # r \<and>
           (\<forall>c \<in> set r. \<exists>e. c = CreateEventCall e)"
proof -
  obtain r1 s1 where c: "UpdateAccessKey st (merge_secret oldKey key) (db w) = (r1, s1)"
    by (cases "UpdateAccessKey st (merge_secret oldKey key) (db w)")
  show ?thesis
  proof (cases r1)
    case (Some err)
    with c UpdateKey_store_error [OF assms, of st oldKey w err s1] show ?thesis by simp
  next
    case None
    obtain r2 s2 where "CreateEvent st
       \<lparr>Event_ProjectID = ProjectID oldKey, ObjectType = Some ''key'',
        ObjectID = Some (ID oldKey),
        Description = Some (''Access Key '' @ Name key @ '' updated'')\<rparr> s1 = (r2, s2)"
      by (cases "CreateEvent st
       \<lparr>Event_ProjectID = ProjectID oldKey, ObjectType = Some ''key'',
        ObjectID = Some (ID oldKey),
        Description = Some (''Access Key '' @ Name key @ '' updated'')\<rparr> s1")
    with c None UpdateKey_updated [OF assms, of st oldKey w s1 r2 s2] show ?thesis by simp
  qed
qed


lemma merge_secret_carry:
  "Secret key = None \<or> Secret key = Some [] \<Longrightarrow>
   merge_secret oldKey key = key\<lparr>Secret := Secret oldKey\<rparr>"
  by (auto simp: merge_secret_def)

lemma RemoveKey_deleted:
  assumes "ProjectID key = Some pid"
    and "(if Get query ''setRemoved'' = [] then DeleteAccessKeySoft st pid (ID key) (db w)
          else DeleteAccessKey st pid (ID key) (db w)) = (None, s1)"
    and "CreateEvent st
       \<lparr>Event_ProjectID = ProjectID key, ObjectType = None, ObjectID = None,
        Description = Some (''Access Key '' @ Name key @ '' deleted'')\<rparr> s1 = (r, s2)"
  shows "RemoveKey st key query w =
     Inr (w\<lparr>db := s2,
            calls := calls w @
              [if Get query ''setRemoved'' = [] then DeleteAccessKeySoftCall pid (ID key)
               else DeleteAccessKeyCall pid (ID key),
               CreateEventCall
                 \<lparr>Event_ProjectID = ProjectID key, ObjectType = None, ObjectID = None,
                  Description = Some (''Access Key '' @ Name key @ '' deleted'')\<rparr>],
            logged := logged w @ (case r of Inl e \<Rightarrow> [e] | Inr _ \<Rightarrow> []),
            written := written w @ [WriteHeader 204]\<rparr>)"
proof (cases "Get query ''setRemoved'' = []")
  case True
  with assms(2) have d: "DeleteAccessKeySoft st pid (ID key) (db w) = (None, s1)" by simp
  show ?thesis
    using True assms(3)
    by (simp add: RemoveKey_soft [OF assms(1) True d]
          RemoveKey_finish_deleted [where ?s2.0 = s2 and r = r])
next
  case False
  with assms(2) have d: "DeleteAccessKey st pid (ID key) (db w) = (None, s1)" by simp
  show ?thesis
    using False assms(3)
    by (simp add: RemoveKey_hard [OF assms(1) False d]
          RemoveKey_finish_deleted [where ?s2.0 = s2 and r = r])
qed

lemma RemoveKey_calls:
  assumes "ProjectID key = Some pid"
  shows "\<exists>w' r. RemoveKey st key query w = Inr w' \<and>
     calls w' = calls w @
       (if Get query ''setRemoved'' = [] then DeleteAccessKeySoftCall pid (ID key)
        else DeleteAccessKeyCall pid (ID key)) # r \<and>
     (\<forall>c \<in> set r. \<exists>e. c = CreateEventCall e)"
proof -
  obtain err s1 where d:
    "(if Get query ''setRemoved'' = [] then DeleteAccessKeySoft st pid (ID key) (db w)
      else DeleteAccessKey st pid (ID key) (db w)) = (err, s1)"
    by (cases "if Get query ''setRemoved'' = [] then DeleteAccessKeySoft st pid (ID key) (db w)
      else DeleteAccessKey st pid (ID key) (db w)")
  show ?thesis
  proof (cases err)
    case None
    obtain r s2 where "CreateEvent st
       \<lparr>Event_ProjectID = ProjectID key, ObjectType = None, ObjectID = None,
        Description = Some (''Access Key '' @ Name key @ '' deleted'')\<rparr> s1 = (r, s2)"
      by (cases "CreateEvent st
       \<lparr>Event_ProjectID = ProjectID key, ObjectType = None, ObjectID = None,
        Description = Some (''Access Key '' @ Name key @ '' deleted'')\<rparr> s1")
    from RemoveKey_deleted [OF assms d [unfolded None] this] show ?thesis by simp
  next
    case (Some e)
    show ?thesis
    proof (cases "Get query ''setRemoved'' = []")
      case True
      with d Some have "DeleteAccessKeySoft st pid (ID key) (db w) = (Some e, s1)" by simp
      from RemoveKey_soft [OF assms True this] True show ?thesis
        by (simp add: RemoveKey_finish_error)
    next
      case False
      with d Some have h: "DeleteAccessKey st pid (ID key) (db w) = (Some e, s1)" by simp
      show ?thesis
      proof (cases "e = ErrInvalidOperation")
        case True
        with RemoveKey_in_use [OF assms False, of st w s1] h False show ?thesis by simp
      next
        case ne: False
        then have "Some e \<noteq> Some ErrInvalidOperation" by simp
        from RemoveKey_hard [OF assms False h this] False show ?thesis
          by (simp add: RemoveKey_finish_error)
      qed
    qed
  qed
qed


section \<open>The claims\<close>

text \<open>
  C1 (evaluated at the failing input): a key of type aws with no secret, sent under its
  own project 7, passes both checks of \<^verbatim>\<open>AddKey\<close> and reaches \<^verbatim>\<open>*key.Secret += "\n"\<close>
  with a nil pointer, so the handler panics before any store call, whatever the store
  and the world are. The claim says that creation completes without touching the secret.
\<close>

theorem AddKey_aws_without_secret_panics:
  "AddKey st \<lparr>Project_ID = 7\<rparr>
     (Some \<lparr>ID = 0, Name = ''cloud'', Type = ''aws'', ProjectID = Some 7, Secret = None,
            Removed = False\<rparr>) w = Inl NilPointerDereference"
  by (rule AddKey_nil_secret) (simp_all add: switch_Type_def)

text \<open>
  C5: a payload whose type is none of aws, gcloud, do and ssh, or whose type is ssh with
  an absent or empty secret, is answered by \<^verbatim>\<open>AddKey\<close> and by \<^verbatim>\<open>UpdateKey\<close> with a
  bad-request error object, and the world is otherwise unchanged: no store call, no
  change of the store's state. So is a payload of \<^verbatim>\<open>AddKey\<close> whose project ID is absent
  or is not the context project's.
\<close>

theorem validation_failure_before_any_store_call:
  "(Type key \<notin> {''aws'', ''gcloud'', ''do'', ''ssh''} \<or>
    (Type key = ''ssh'' \<and> (Secret key = None \<or> Secret key = Some [])) \<longrightarrow>
      (\<exists>msg. AddKey st project (Some key) w =
         Inr (w\<lparr>written := written w @ [WriteJSON 400 [(''error'', JString msg)]]\<rparr>)) \<and>
      (\<exists>msg. UpdateKey st oldKey (Some key) w =
         w\<lparr>written := written w @ [WriteJSON 400 [(''error'', JString msg)]]\<rparr>)) \<and>
   (ProjectID key = None \<or> ProjectID key \<noteq> Some (Project_ID project) \<longrightarrow>
      AddKey st project (Some key) w =
        Inr (w\<lparr>written := written w @
          [WriteJSON 400
             [(''error'', JString ''Project ID in body and URL must be the same'')]]\<rparr>))"
proof (intro conjI impI)
  assume bad: "Type key \<notin> {''aws'', ''gcloud'', ''do'', ''ssh''} \<or>
    (Type key = ''ssh'' \<and> (Secret key = None \<or> Secret key = Some []))"
  then obtain msg where msg: "switch_Type key = Some msg"
    using switch_Type_invalid switch_Type_ssh_empty by blast
  show "\<exists>msg. AddKey st project (Some key) w =
         Inr (w\<lparr>written := written w @ [WriteJSON 400 [(''error'', JString msg)]]\<rparr>)"
    using AddKey_invalid [OF msg] by blast
  show "\<exists>msg. UpdateKey st oldKey (Some key) w =
         w\<lparr>written := written w @ [WriteJSON 400 [(''error'', JString msg)]]\<rparr>"
    using UpdateKey_invalid [OF msg] by blast
next
  assume "ProjectID key = None \<or> ProjectID key \<noteq> Some (Project_ID project)"
  then have "ProjectID key \<noteq> Some (Project_ID project)" by auto
  then show "AddKey st project (Some key) w =
        Inr (w\<lparr>written := written w @
          [WriteJSON 400
             [(''error'', JString ''Project ID in body and URL must be the same'')]]\<rparr>)"
    by (rule AddKey_project_mismatch)
qed

theorem validation_failure_before_any_store_call_witness:
  "Type ftp_key \<notin> {''aws'', ''gcloud'', ''do'', ''ssh''} \<and>
   ProjectID ftp_key \<noteq> Some (Project_ID \<lparr>Project_ID = 7\<rparr>) \<and>
   AddKey (stub_store None None) \<lparr>Project_ID = 7\<rparr> (Some ftp_key) w0 =
     Inr (w0\<lparr>written :=
       [WriteJSON 400
          [(''error'', JString ''Project ID in body and URL must be the same'')]]\<rparr>) \<and>
   (\<exists>msg. UpdateKey (stub_store None None) key5 (Some ftp_key) w0 =
      w0\<lparr>written := [WriteJSON 400 [(''error'', JString msg)]]\<rparr>)"
proof -
  have bad: "Type ftp_key \<notin> {''aws'', ''gcloud'', ''do'', ''ssh''}"
    by (simp add: ftp_key_def)
  have mis: "ProjectID ftp_key \<noteq> Some (Project_ID \<lparr>Project_ID = 7\<rparr>)"
    by (simp add: ftp_key_def)
  from bad mis
    validation_failure_before_any_store_call
      [of ftp_key "stub_store None None" "\<lparr>Project_ID = 7\<rparr>" w0 key5]
  show ?thesis by (simp add: w0_def)
qed




text \<open>
  C2 (counterexample): the claim covers every payload without a secret, but an ssh payload
  without a secret never reaches the secret-merge of \<^verbatim>\<open>UpdateKey\<close>: the type switch
  answers it with "SSH Secret empty", no key is handed to the store and the update does
  not succeed.
\<close>

theorem UpdateKey_ssh_without_secret_rejected:
  "UpdateKey (stub_store None None) key5 (Some ssh_rename) w0 =
     \<lparr>db = 10, calls = [], logged = [],
      written = [WriteJSON 400 [(''error'', JString ''SSH Secret empty'')]]\<rparr>"
  by (simp add: UpdateKey_def switch_Type_def secret_empty_def ssh_rename_def w0_def
        write_json_def)

text \<open>
  C2 (amended): for a payload of type aws, gcloud or do whose secret is absent or empty,
  \<^verbatim>\<open>UpdateKey\<close> hands the store the payload with the existing key's stored secret, as it
  is (no newline is appended), hands it no other key, and answers 204 when the store
  accepts the update and records the event. A payload of type ssh whose secret is absent
  or empty is answered with "SSH Secret empty" and changes nothing else.
\<close>

theorem UpdateKey_without_secret_carries_stored_secret:
  "(Type key \<in> {''aws'', ''gcloud'', ''do''} \<and> (Secret key = None \<or> Secret key = Some []) \<longrightarrow>
      (\<exists>r. calls (UpdateKey st oldKey (Some key) w) =
         calls w @ UpdateAccessKeyCall (key\<lparr>Secret := Secret oldKey\<rparr>) # r \<and>
         (\<forall>c \<in> set r. \<exists>e. c = CreateEventCall e)) \<and>
      (\<forall>s1 e s2.
         UpdateAccessKey st (key\<lparr>Secret := Secret oldKey\<rparr>) (db w) = (None, s1) \<and>
         CreateEvent st
           \<lparr>Event_ProjectID = ProjectID oldKey, ObjectType = Some ''key'',
            ObjectID = Some (ID oldKey),
            Description = Some (''Access Key '' @ Name key @ '' updated'')\<rparr> s1 = (Inr e, s2) \<longrightarrow>
         written (UpdateKey st oldKey (Some key) w) = written w @ [WriteHeader 204])) \<and>
   (Type key = ''ssh'' \<and> (Secret key = None \<or> Secret key = Some []) \<longrightarrow>
      UpdateKey st oldKey (Some key) w =
        w\<lparr>written := written w @ [WriteJSON 400 [(''error'', JString ''SSH Secret empty'')]]\<rparr>)"
proof (intro conjI impI allI; elim conjE)
  assume t: "Type key \<in> {''aws'', ''gcloud'', ''do''}"
    and e: "Secret key = None \<or> Secret key = Some []"
  have ok: "switch_Type key = None" using t by (rule switch_Type_cloud)
  have m: "merge_secret oldKey key = key\<lparr>Secret := Secret oldKey\<rparr>"
    using e by (rule merge_secret_carry)
  show "\<exists>r. calls (UpdateKey st oldKey (Some key) w) =
         calls w @ UpdateAccessKeyCall (key\<lparr>Secret := Secret oldKey\<rparr>) # r \<and>
         (\<forall>c \<in> set r. \<exists>e. c = CreateEventCall e)"
    using UpdateKey_calls [OF ok, of st oldKey w] by (simp only: m)
  fix s1 ev s2
  assume "UpdateAccessKey st (key\<lparr>Secret := Secret oldKey\<rparr>) (db w) = (None, s1)"
    and "CreateEvent st
           \<lparr>Event_ProjectID = ProjectID oldKey, ObjectType = Some ''key'',
            ObjectID = Some (ID oldKey),
            Description = Some (''Access Key '' @ Name key @ '' updated'')\<rparr> s1 = (Inr ev, s2)"
  then show "written (UpdateKey st oldKey (Some key) w) = written w @ [WriteHeader 204]"
    using UpdateKey_updated [OF ok, of st oldKey w s1 "Inr ev" s2] by (simp add: m)
next
  assume "Type key = ''ssh''" and "Secret key = None \<or> Secret key = Some []"
  then have "switch_Type key = Some ''SSH Secret empty''" by (rule switch_Type_ssh_empty)
  then show "UpdateKey st oldKey (Some key) w =
        w\<lparr>written := written w @ [WriteJSON 400 [(''error'', JString ''SSH Secret empty'')]]\<rparr>"
    by (rule UpdateKey_invalid)
qed

theorem UpdateKey_without_secret_carries_stored_secret_witness:
  "calls (UpdateKey (stub_store None None) key5 (Some aws_rename) w0) =
     [UpdateAccessKeyCall (aws_rename\<lparr>Secret := Some [CHR ''K'', CHR ''E'', CHR ''Y'', CHR 0x0A]\<rparr>),
      CreateEventCall
        \<lparr>Event_ProjectID = Some 7, ObjectType = Some ''key'', ObjectID = Some 5,
         Description = Some ''Access Key renamed updated''\<rparr>] \<and>
   written (UpdateKey (stub_store None None) key5 (Some aws_rename) w0) = [WriteHeader 204] \<and>
   UpdateKey (stub_store None None) key5 (Some ssh_rename) w0 =
     w0\<lparr>written := [WriteJSON 400 [(''error'', JString ''SSH Secret empty'')]]\<rparr>"
proof -
  have a: "Type aws_rename \<in> {''aws'', ''gcloud'', ''do''} \<and>
      (Secret aws_rename = None \<or> Secret aws_rename = Some [])"
    by (simp add: aws_rename_def)
  have s: "Type ssh_rename = ''ssh'' \<and> (Secret ssh_rename = None \<or> Secret ssh_rename = Some [])"
    by (simp add: ssh_rename_def)
  have u: "UpdateAccessKey (stub_store None None) (aws_rename\<lparr>Secret := Secret key5\<rparr>) (db w0) =
      (None, 10)"
    by (simp add: stub_store_def w0_def)
  have ev: "CreateEvent (stub_store None None)
       \<lparr>Event_ProjectID = ProjectID key5, ObjectType = Some ''key'', ObjectID = Some (ID key5),
        Description = Some (''Access Key '' @ Name aws_rename @ '' updated'')\<rparr> 10 =
      (Inr \<lparr>Event_ProjectID = ProjectID key5, ObjectType = Some ''key'',
            ObjectID = Some (ID key5),
            Description = Some (''Access Key '' @ Name aws_rename @ '' updated'')\<rparr>, 10)"
    by (simp add: stub_store_def)
  note t = UpdateKey_without_secret_carries_stored_secret
      [where key = aws_rename and st = "stub_store None None" and oldKey = key5 and w = w0]
  note t' = UpdateKey_without_secret_carries_stored_secret
      [where key = ssh_rename and st = "stub_store None None" and oldKey = key5 and w = w0]
  from t a u ev have w: "written (UpdateKey (stub_store None None) key5 (Some aws_rename) w0) =
      written w0 @ [WriteHeader 204]"
    by blast
  have c: "calls (UpdateKey (stub_store None None) key5 (Some aws_rename) w0) =
     [UpdateAccessKeyCall (aws_rename\<lparr>Secret := Some [CHR ''K'', CHR ''E'', CHR ''Y'', CHR 0x0A]\<rparr>),
      CreateEventCall
        \<lparr>Event_ProjectID = Some 7, ObjectType = Some ''key'', ObjectID = Some 5,
         Description = Some ''Access Key renamed updated''\<rparr>]"
    by (simp add: UpdateKey_def switch_Type_def merge_secret_def aws_rename_def key5_def
          w0_def stub_store_def newline_def effects)
  from t' s have "UpdateKey (stub_store None None) key5 (Some ssh_rename) w0 =
      w0\<lparr>written := written w0 @ [WriteJSON 400 [(''error'', JString ''SSH Secret empty'')]]\<rparr>"
    by blast
  with w c show ?thesis by (simp add: w0_def)
qed

text \<open>
  C3 (evaluated at the failing input): key 5 belongs to project 7 and the payload names
  project 8. \<^verbatim>\<open>UpdateKey\<close> never compares the payload's \<^verbatim>\<open>ProjectID\<close> with the resolved
  key's and hands the store the payload's project 8, while it records the event against
  project 7. The claim says that the key handed to the store has the resolved key's
  project.
\<close>

theorem UpdateKey_hands_payload_project_to_store:
  "calls (UpdateKey (stub_store None None) key5 (Some moved_key) w0) =
     [UpdateAccessKeyCall
        \<lparr>ID = 5, Name = ''deploy'', Type = ''aws'', ProjectID = Some 8,
         Secret = Some [CHR ''K'', CHR ''E'', CHR ''Y'', CHR 0x0A], Removed = False\<rparr>,
      CreateEventCall
        \<lparr>Event_ProjectID = Some 7, ObjectType = Some ''key'', ObjectID = Some 5,
         Description = Some ''Access Key deploy updated''\<rparr>] \<and>
   ProjectID key5 = Some 7"
  by (simp add: UpdateKey_def switch_Type_def merge_secret_def moved_key_def key5_def
        w0_def stub_store_def newline_def effects)

text \<open>
  C6: when the key mutation has succeeded and the store then fails to record the audit
  event with the error \<open>err\<close>, \<^verbatim>\<open>AddKey\<close> and \<^verbatim>\<open>RemoveKey\<close> (soft or hard) log \<open>err\<close> and
  still answer 204, while \<^verbatim>\<open>UpdateKey\<close> logs \<open>err\<close> and returns without writing any
  answer, so it does not emit the 204.
\<close>

theorem audit_write_failure_is_handled_asymmetrically:
  "(ProjectID key = Some (Project_ID project) \<and> switch_Type key = None \<and> Secret key = Some s \<and>
    CreateAccessKey st (key\<lparr>Secret := Some (s @ newline)\<rparr>) (db w) = (Inr newKey, sa) \<and>
    CreateEvent st
      \<lparr>Event_ProjectID = ProjectID newKey, ObjectType = Some ''key'',
       ObjectID = Some (ID newKey),
       Description = Some (''Access Key '' @ Name key @ '' created'')\<rparr> sa = (Inl err, sb) \<longrightarrow>
      (\<exists>w'. AddKey st project (Some key) w = Inr w' \<and>
         logged w' = logged w @ [err] \<and> written w' = written w @ [WriteHeader 204])) \<and>
   (ProjectID oldKey = Some pid \<and>
    (if Get query ''setRemoved'' = [] then DeleteAccessKeySoft st pid (ID oldKey) (db w)
     else DeleteAccessKey st pid (ID oldKey) (db w)) = (None, sc) \<and>
    CreateEvent st
      \<lparr>Event_ProjectID = ProjectID oldKey, ObjectType = None, ObjectID = None,
       Description = Some (''Access Key '' @ Name oldKey @ '' deleted'')\<rparr> sc = (Inl err, sd) \<longrightarrow>
      (\<exists>w'. RemoveKey st oldKey query w = Inr w' \<and>
         logged w' = logged w @ [err] \<and> written w' = written w @ [WriteHeader 204])) \<and>
   (switch_Type key = None \<and>
    UpdateAccessKey st (merge_secret oldKey key) (db w) = (None, se) \<and>
    CreateEvent st
      \<lparr>Event_ProjectID = ProjectID oldKey, ObjectType = Some ''key'',
       ObjectID = Some (ID oldKey),
       Description = Some (''Access Key '' @ Name key @ '' updated'')\<rparr> se = (Inl err, sf) \<longrightarrow>
      logged (UpdateKey st oldKey (Some key) w) = logged w @ [err] \<and>
      written (UpdateKey st oldKey (Some key) w) = written w)"
proof (intro conjI impI; elim conjE)
  assume "ProjectID key = Some (Project_ID project)" "switch_Type key = None"
    "Secret key = Some s"
    "CreateAccessKey st (key\<lparr>Secret := Some (s @ newline)\<rparr>) (db w) = (Inr newKey, sa)"
    "CreateEvent st
      \<lparr>Event_ProjectID = ProjectID newKey, ObjectType = Some ''key'',
       ObjectID = Some (ID newKey),
       Description = Some (''Access Key '' @ Name key @ '' created'')\<rparr> sa = (Inl err, sb)"
  from AddKey_created [OF this]
  show "\<exists>w'. AddKey st project (Some key) w = Inr w' \<and>
         logged w' = logged w @ [err] \<and> written w' = written w @ [WriteHeader 204]"
    by simp
next
  assume "ProjectID oldKey = Some pid"
    "(if Get query ''setRemoved'' = [] then DeleteAccessKeySoft st pid (ID oldKey) (db w)
     else DeleteAccessKey st pid (ID oldKey) (db w)) = (None, sc)"
    "CreateEvent st
      \<lparr>Event_ProjectID = ProjectID oldKey, ObjectType = None, ObjectID = None,
       Description = Some (''Access Key '' @ Name oldKey @ '' deleted'')\<rparr> sc = (Inl err, sd)"
  from RemoveKey_deleted [OF this]
  show "\<exists>w'. RemoveKey st oldKey query w = Inr w' \<and>
         logged w' = logged w @ [err] \<and> written w' = written w @ [WriteHeader 204]"
    by simp
next
  assume "switch_Type key = None"
    "UpdateAccessKey st (merge_secret oldKey key) (db w) = (None, se)"
    "CreateEvent st
      \<lparr>Event_ProjectID = ProjectID oldKey, ObjectType = Some ''key'',
       ObjectID = Some (ID oldKey),
       Description = Some (''Access Key '' @ Name key @ '' updated'')\<rparr> se = (Inl err, sf)"
  note u = UpdateKey_updated [OF this]
  show "logged (UpdateKey st oldKey (Some key) w) = logged w @ [err]"
    by (simp add: u)
  show "written (UpdateKey st oldKey (Some key) w) = written w"
    by (simp add: u)
qed

theorem audit_write_failure_is_handled_asymmetrically_witness:
  "(\<exists>w'. AddKey (stub_store None (Some disk_full)) \<lparr>Project_ID = 7\<rparr> (Some abc_key) w0 = Inr w' \<and>
      logged w' = [disk_full] \<and> written w' = [WriteHeader 204]) \<and>
   (\<exists>w'. RemoveKey (stub_store None (Some disk_full)) key5 Map.empty w0 = Inr w' \<and>
      logged w' = [disk_full] \<and> written w' = [WriteHeader 204]) \<and>
   logged (UpdateKey (stub_store None (Some disk_full)) key5 (Some abc_key) w0) = [disk_full] \<and>
   written (UpdateKey (stub_store None (Some disk_full)) key5 (Some abc_key) w0) = []"
proof -
  let ?st = "stub_store None (Some disk_full)"
  have a: "ProjectID abc_key = Some (Project_ID \<lparr>Project_ID = 7\<rparr>) \<and>
      switch_Type abc_key = None \<and> Secret abc_key = Some ''abc'' \<and>
      CreateAccessKey ?st (abc_key\<lparr>Secret := Some (''abc'' @ newline)\<rparr>) (db w0) =
        (Inr (abc_key\<lparr>Secret := Some (''abc'' @ newline), ID := 10\<rparr>), 11) \<and>
      CreateEvent ?st
        \<lparr>Event_ProjectID = ProjectID (abc_key\<lparr>Secret := Some (''abc'' @ newline), ID := 10\<rparr>),
         ObjectType = Some ''key'',
         ObjectID = Some (ID (abc_key\<lparr>Secret := Some (''abc'' @ newline), ID := 10\<rparr>)),
         Description = Some (''Access Key '' @ Name abc_key @ '' created'')\<rparr> 11 =
        (Inl disk_full, 11)"
    by (simp add: abc_key_def switch_Type_def secret_empty_def stub_store_def w0_def)
  have d: "ProjectID key5 = Some 7 \<and>
      (if Get Map.empty ''setRemoved'' = [] then DeleteAccessKeySoft ?st 7 (ID key5) (db w0)
       else DeleteAccessKey ?st 7 (ID key5) (db w0)) = (None, 10) \<and>
      CreateEvent ?st
        \<lparr>Event_ProjectID = ProjectID key5, ObjectType = None, ObjectID = None,
         Description = Some (''Access Key '' @ Name key5 @ '' deleted'')\<rparr> 10 =
        (Inl disk_full, 10)"
    by (simp add: key5_def Get_def stub_store_def w0_def)
  have u: "switch_Type abc_key = None \<and>
      UpdateAccessKey ?st (merge_secret key5 abc_key) (db w0) = (None, 10) \<and>
      CreateEvent ?st
        \<lparr>Event_ProjectID = ProjectID key5, ObjectType = Some ''key'',
         ObjectID = Some (ID key5),
         Description = Some (''Access Key '' @ Name abc_key @ '' updated'')\<rparr> 10 =
        (Inl disk_full, 10)"
    by (simp add: abc_key_def switch_Type_def secret_empty_def stub_store_def w0_def)
  note t = audit_write_failure_is_handled_asymmetrically
      [where st = ?st and w = w0 and key = abc_key and oldKey = key5 and err = disk_full
         and project = "\<lparr>Project_ID = 7\<rparr>" and s = "''abc''" and pid = 7
         and query = Map.empty and sa = 11 and sb = 11 and sc = 10 and sd = 10
         and se = 10 and sf = 10
         and newKey = "abc_key\<lparr>Secret := Some (''abc'' @ newline), ID := 10\<rparr>"]
  from t a have A: "\<exists>w'. AddKey ?st \<lparr>Project_ID = 7\<rparr> (Some abc_key) w0 = Inr w' \<and>
      logged w' = logged w0 @ [disk_full] \<and> written w' = written w0 @ [WriteHeader 204]"
    by blast
  from t d have D: "\<exists>w'. RemoveKey ?st key5 Map.empty w0 = Inr w' \<and>
      logged w' = logged w0 @ [disk_full] \<and> written w' = written w0 @ [WriteHeader 204]"
    by blast
  from t u have U: "logged (UpdateKey ?st key5 (Some abc_key) w0) = logged w0 @ [disk_full] \<and>
      written (UpdateKey ?st key5 (Some abc_key) w0) = written w0"
    by blast
  have z: "logged w0 = []" "written w0 = []" by (simp_all add: w0_def)
  from A D U show ?thesis unfolding z by simp
qed

text \<open>
  C7 (counterexample): a successful (soft) deletion of key 5 records one event, and its
  \<^verbatim>\<open>ObjectType\<close> and \<^verbatim>\<open>ObjectID\<close> are nil: the event literal of \<^verbatim>\<open>RemoveKey\<close> sets the project
  and the description only.
\<close>

theorem RemoveKey_event_names_no_object:
  "RemoveKey (stub_store None None) key5 Map.empty w0 =
     Inr \<lparr>db = 10,
          calls =
            [DeleteAccessKeySoftCall 7 5,
             CreateEventCall
               \<lparr>Event_ProjectID = Some 7, ObjectType = None, ObjectID = None,
                Description = Some ''Access Key deploy deleted''\<rparr>],
          logged = [], written = [WriteHeader 204]\<rparr>"
  by (simp add: RemoveKey_def RemoveKey_finish_def Get_def key5_def w0_def stub_store_def
        effects)

text \<open>
  C7 (amended): the event of a successful \<^verbatim>\<open>AddKey\<close> carries the object type "key" and the
  ID of the key the store returned, and the event of a successful \<^verbatim>\<open>UpdateKey\<close> the
  object type "key" and the ID of the resolved key; the event of a successful
  \<^verbatim>\<open>RemoveKey\<close>, soft or hard, carries the key's project and the description, and neither
  object type nor object ID.
\<close>

theorem audit_events_of_create_and_update_name_the_key:
  "(ProjectID key = Some (Project_ID project) \<and> switch_Type key = None \<and> Secret key = Some s \<and>
    CreateAccessKey st (key\<lparr>Secret := Some (s @ newline)\<rparr>) (db w) = (Inr newKey, sa) \<longrightarrow>
      (\<exists>w'. AddKey st project (Some key) w = Inr w' \<and>
         calls w' = calls w @
           [CreateAccessKeyCall (key\<lparr>Secret := Some (s @ newline)\<rparr>),
            CreateEventCall
              \<lparr>Event_ProjectID = ProjectID newKey, ObjectType = Some ''key'',
               ObjectID = Some (ID newKey),
               Description = Some (''Access Key '' @ Name key @ '' created'')\<rparr>])) \<and>
   (switch_Type key = None \<and>
    UpdateAccessKey st (merge_secret oldKey key) (db w) = (None, sb) \<longrightarrow>
      calls (UpdateKey st oldKey (Some key) w) = calls w @
        [UpdateAccessKeyCall (merge_secret oldKey key),
         CreateEventCall
           \<lparr>Event_ProjectID = ProjectID oldKey, ObjectType = Some ''key'',
            ObjectID = Some (ID oldKey),
            Description = Some (''Access Key '' @ Name key @ '' updated'')\<rparr>]) \<and>
   (ProjectID oldKey = Some pid \<and>
    (if Get query ''setRemoved'' = [] then DeleteAccessKeySoft st pid (ID oldKey) (db w)
     else DeleteAccessKey st pid (ID oldKey) (db w)) = (None, sc) \<longrightarrow>
      (\<exists>w'. RemoveKey st oldKey query w = Inr w' \<and>
         calls w' = calls w @
           [if Get query ''setRemoved'' = [] then DeleteAccessKeySoftCall pid (ID oldKey)
            else DeleteAccessKeyCall pid (ID oldKey),
            CreateEventCall
              \<lparr>Event_ProjectID = ProjectID oldKey, ObjectType = None, ObjectID = None,
               Description = Some (''Access Key '' @ Name oldKey @ '' deleted'')\<rparr>]))"
proof (intro conjI impI; elim conjE)
  assume h: "ProjectID key = Some (Project_ID project)" "switch_Type key = None"
    "Secret key = Some s"
    "CreateAccessKey st (key\<lparr>Secret := Some (s @ newline)\<rparr>) (db w) = (Inr newKey, sa)"
  obtain r sd where "CreateEvent st
       \<lparr>Event_ProjectID = ProjectID newKey, ObjectType = Some ''key'',
        ObjectID = Some (ID newKey),
        Description = Some (''Access Key '' @ Name key @ '' created'')\<rparr> sa = (r, sd)"
    by (cases "CreateEvent st
       \<lparr>Event_ProjectID = ProjectID newKey, ObjectType = Some ''key'',
        ObjectID = Some (ID newKey),
        Description = Some (''Access Key '' @ Name key @ '' created'')\<rparr> sa")
  from AddKey_created [OF h this]
  show "\<exists>w'. AddKey st project (Some key) w = Inr w' \<and>
         calls w' = calls w @
           [CreateAccessKeyCall (key\<lparr>Secret := Some (s @ newline)\<rparr>),
            CreateEventCall
              \<lparr>Event_ProjectID = ProjectID newKey, ObjectType = Some ''key'',
               ObjectID = Some (ID newKey),
               Description = Some (''Access Key '' @ Name key @ '' created'')\<rparr>]"
    by simp
next
  assume h: "switch_Type key = None"
    "UpdateAccessKey st (merge_secret oldKey key) (db w) = (None, sb)"
  obtain r sd where "CreateEvent st
       \<lparr>Event_ProjectID = ProjectID oldKey, ObjectType = Some ''key'',
        ObjectID = Some (ID oldKey),
        Description = Some (''Access Key '' @ Name key @ '' updated'')\<rparr> sb = (r, sd)"
    by (cases "CreateEvent st
       \<lparr>Event_ProjectID = ProjectID oldKey, ObjectType = Some ''key'',
        ObjectID = Some (ID oldKey),
        Description = Some (''Access Key '' @ Name key @ '' updated'')\<rparr> sb")
  from UpdateKey_updated [OF h this]
  show "calls (UpdateKey st oldKey (Some key) w) = calls w @
        [UpdateAccessKeyCall (merge_secret oldKey key),
         CreateEventCall
           \<lparr>Event_ProjectID = ProjectID oldKey, ObjectType = Some ''key'',
            ObjectID = Some (ID oldKey),
            Description = Some (''Access Key '' @ Name key @ '' updated'')\<rparr>]"
    by simp
next
  assume h: "ProjectID oldKey = Some pid"
    "(if Get query ''setRemoved'' = [] then DeleteAccessKeySoft st pid (ID oldKey) (db w)
     else DeleteAccessKey st pid (ID oldKey) (db w)) = (None, sc)"
  obtain r sd where "CreateEvent st
       \<lparr>Event_ProjectID = ProjectID oldKey, ObjectType = None, ObjectID = None,
        Description = Some (''Access Key '' @ Name oldKey @ '' deleted'')\<rparr> sc = (r, sd)"
    by (cases "CreateEvent st
       \<lparr>Event_ProjectID = ProjectID oldKey, ObjectType = None, ObjectID = None,
        Description = Some (''Access Key '' @ Name oldKey @ '' deleted'')\<rparr> sc")
  from RemoveKey_deleted [OF h this]
  show "\<exists>w'. RemoveKey st oldKey query w = Inr w' \<and>
         calls w' = calls w @
           [if Get query ''setRemoved'' = [] then DeleteAccessKeySoftCall pid (ID oldKey)
            else DeleteAccessKeyCall pid (ID oldKey),
            CreateEventCall
              \<lparr>Event_ProjectID = ProjectID oldKey, ObjectType = None, ObjectID = None,
               Description = Some (''Access Key '' @ Name oldKey @ '' deleted'')\<rparr>]"
    by simp
qed

theorem audit_events_of_create_and_update_name_the_key_witness:
  "(\<exists>w' k. AddKey (stub_store None None) \<lparr>Project_ID = 7\<rparr> (Some abc_key) w0 = Inr w' \<and>
      calls w' =
        [CreateAccessKeyCall k,
         CreateEventCall
           \<lparr>Event_ProjectID = Some 7, ObjectType = Some ''key'', ObjectID = Some 10,
            Description = Some ''Access Key deploy created''\<rparr>]) \<and>
   (\<exists>k. calls (UpdateKey (stub_store None None) key5 (Some abc_key) w0) =
        [UpdateAccessKeyCall k,
         CreateEventCall
           \<lparr>Event_ProjectID = Some 7, ObjectType = Some ''key'', ObjectID = Some 5,
            Description = Some ''Access Key deploy updated''\<rparr>]) \<and>
   (\<exists>w'. RemoveKey (stub_store None None) key5 [''setRemoved'' \<mapsto> [''1'']] w0 = Inr w' \<and>
      calls w' =
        [DeleteAccessKeyCall 7 5,
         CreateEventCall
           \<lparr>Event_ProjectID = Some 7, ObjectType = None, ObjectID = None,
            Description = Some ''Access Key deploy deleted''\<rparr>])"
proof -
  let ?st = "stub_store None None"
  let ?q = "[''setRemoved'' \<mapsto> [''1'']]"
  let ?new = "abc_key\<lparr>Secret := Some (''abc'' @ newline), ID := 10\<rparr>"
  have a: "ProjectID abc_key = Some (Project_ID \<lparr>Project_ID = 7\<rparr>) \<and>
      switch_Type abc_key = None \<and> Secret abc_key = Some ''abc'' \<and>
      CreateAccessKey ?st (abc_key\<lparr>Secret := Some (''abc'' @ newline)\<rparr>) (db w0) =
        (Inr ?new, 11)"
    by (simp add: abc_key_def switch_Type_def secret_empty_def stub_store_def w0_def)
  have u: "switch_Type abc_key = None \<and>
      UpdateAccessKey ?st (merge_secret key5 abc_key) (db w0) = (None, 10)"
    by (simp add: abc_key_def switch_Type_def secret_empty_def stub_store_def w0_def)
  have d: "ProjectID key5 = Some 7 \<and>
      (if Get ?q ''setRemoved'' = [] then DeleteAccessKeySoft ?st 7 (ID key5) (db w0)
       else DeleteAccessKey ?st 7 (ID key5) (db w0)) = (None, 10)"
    by (simp add: key5_def Get_def stub_store_def w0_def)
  note t = audit_events_of_create_and_update_name_the_key
      [where st = ?st and w = w0 and key = abc_key and oldKey = key5
         and project = "\<lparr>Project_ID = 7\<rparr>" and s = "''abc''" and pid = 7
         and query = ?q and sa = 11 and sb = 10 and sc = 10 and newKey = ?new]
  from t a have A: "\<exists>w'. AddKey ?st \<lparr>Project_ID = 7\<rparr> (Some abc_key) w0 = Inr w' \<and>
      calls w' = calls w0 @
        [CreateAccessKeyCall (abc_key\<lparr>Secret := Some (''abc'' @ newline)\<rparr>),
         CreateEventCall
           \<lparr>Event_ProjectID = ProjectID ?new, ObjectType = Some ''key'',
            ObjectID = Some (ID ?new),
            Description = Some (''Access Key '' @ Name abc_key @ '' created'')\<rparr>]"
    by blast
  from t u have U: "calls (UpdateKey ?st key5 (Some abc_key) w0) = calls w0 @
        [UpdateAccessKeyCall (merge_secret key5 abc_key),
         CreateEventCall
           \<lparr>Event_ProjectID = ProjectID key5, ObjectType = Some ''key'',
            ObjectID = Some (ID key5),
            Description = Some (''Access Key '' @ Name abc_key @ '' updated'')\<rparr>]"
    by blast
  from t d have D: "\<exists>w'. RemoveKey ?st key5 ?q w0 = Inr w' \<and>
      calls w' = calls w0 @
        [if Get ?q ''setRemoved'' = [] then DeleteAccessKeySoftCall 7 (ID key5)
         else DeleteAccessKeyCall 7 (ID key5),
         CreateEventCall
           \<lparr>Event_ProjectID = ProjectID key5, ObjectType = None, ObjectID = None,
            Description = Some (''Access Key '' @ Name key5 @ '' deleted'')\<rparr>]"
    by blast
  have z: "calls w0 = []" by (simp add: w0_def)
  have n: "ProjectID ?new = Some 7" "ID ?new = 10" "Name abc_key = ''deploy''"
    "ProjectID key5 = Some 7" "ID key5 = 5" "Name key5 = ''deploy''"
    "Get ?q ''setRemoved'' = ''1''"
    by (simp_all add: abc_key_def key5_def Get_def)
  from A U D show ?thesis unfolding z n by auto
qed

text \<open>
  C8: when a hard deletion (a non-empty \<^verbatim>\<open>setRemoved\<close>) is answered by the store with
  \<^verbatim>\<open>db.ErrInvalidOperation\<close>, \<^verbatim>\<open>RemoveKey\<close> writes the bad-request object with the field
  \<^verbatim>\<open>inUse\<close> set to true, not the generic \<^verbatim>\<open>helpers.WriteError\<close>; the deletion is its only
  store call, so no event is recorded, and no 204 is written.
\<close>

theorem hard_delete_in_use_conflict:
  "ProjectID key = Some pid \<and> Get query ''setRemoved'' \<noteq> [] \<and>
   DeleteAccessKey st pid (ID key) (db w) = (Some ErrInvalidOperation, sa) \<longrightarrow>
     RemoveKey st key query w =
       Inr (w\<lparr>db := sa,
              calls := calls w @ [DeleteAccessKeyCall pid (ID key)],
              written := written w @
                [WriteJSON 400
                   [(''error'', JString ''Inventory is in use by one or more templates''),
                    (''inUse'', JBool True)]]\<rparr>)"
  using RemoveKey_in_use [of key pid query st w sa] by blast

theorem hard_delete_in_use_conflict_witness:
  "RemoveKey (stub_store (Some ErrInvalidOperation) None) key5 [''setRemoved'' \<mapsto> [''1'']] w0 =
     Inr \<lparr>db = 10, calls = [DeleteAccessKeyCall 7 5], logged = [],
          written =
            [WriteJSON 400
               [(''error'', JString ''Inventory is in use by one or more templates''),
                (''inUse'', JBool True)]]\<rparr>"
proof -
  let ?st = "stub_store (Some ErrInvalidOperation) None"
  let ?q = "[''setRemoved'' \<mapsto> [''1'']]"
  have h: "ProjectID key5 = Some 7 \<and> Get ?q ''setRemoved'' \<noteq> [] \<and>
      DeleteAccessKey ?st 7 (ID key5) (db w0) = (Some ErrInvalidOperation, 10)"
    by (simp add: key5_def Get_def stub_store_def w0_def)
  from hard_delete_in_use_conflict
      [where key = key5 and pid = 7 and query = ?q and st = ?st and w = w0 and sa = 10] h
  have "RemoveKey ?st key5 ?q w0 =
       Inr (w0\<lparr>db := 10,
              calls := calls w0 @ [DeleteAccessKeyCall 7 (ID key5)],
              written := written w0 @
                [WriteJSON 400
                   [(''error'', JString ''Inventory is in use by one or more templates''),
                    (''inUse'', JBool True)]]\<rparr>)"
    by blast
  then show ?thesis by (simp add: w0_def key5_def)
qed

text \<open>
  C9: when the store accepts the update, the calls of \<^verbatim>\<open>UpdateKey\<close> are the update and one
  event, and the event carries the project and the ID of the resolved (previous) key,
  whatever \<^verbatim>\<open>ID\<close> and \<^verbatim>\<open>ProjectID\<close> the payload has.
\<close>

theorem update_event_is_recorded_against_the_previous_key:
  "switch_Type key = None \<and>
   UpdateAccessKey st (merge_secret oldKey key) (db w) = (None, sa) \<longrightarrow>
     calls (UpdateKey st oldKey (Some key) w) = calls w @
        [UpdateAccessKeyCall (merge_secret oldKey key),
         CreateEventCall
           \<lparr>Event_ProjectID = ProjectID oldKey, ObjectType = Some ''key'',
            ObjectID = Some (ID oldKey),
            Description = Some (''Access Key '' @ Name key @ '' updated'')\<rparr>]"
proof (intro impI; elim conjE)
  assume h: "switch_Type key = None"
    "UpdateAccessKey st (merge_secret oldKey key) (db w) = (None, sa)"
  obtain r sd where "CreateEvent st
       \<lparr>Event_ProjectID = ProjectID oldKey, ObjectType = Some ''key'',
        ObjectID = Some (ID oldKey),
        Description = Some (''Access Key '' @ Name key @ '' updated'')\<rparr> sa = (r, sd)"
    by (cases "CreateEvent st
       \<lparr>Event_ProjectID = ProjectID oldKey, ObjectType = Some ''key'',
        ObjectID = Some (ID oldKey),
        Description = Some (''Access Key '' @ Name key @ '' updated'')\<rparr> sa")
  from UpdateKey_updated [OF h this]
  show "calls (UpdateKey st oldKey (Some key) w) = calls w @
        [UpdateAccessKeyCall (merge_secret oldKey key),
         CreateEventCall
           \<lparr>Event_ProjectID = ProjectID oldKey, ObjectType = Some ''key'',
            ObjectID = Some (ID oldKey),
            Description = Some (''Access Key '' @ Name key @ '' updated'')\<rparr>]"
    by simp
qed

theorem update_event_is_recorded_against_the_previous_key_witness:
  "ID other_identity = 99 \<and> ProjectID other_identity = Some 42 \<and>
   (\<exists>k desc. calls (UpdateKey (stub_store None None) key5 (Some other_identity) w0) =
        [UpdateAccessKeyCall k,
         CreateEventCall
           \<lparr>Event_ProjectID = Some 7, ObjectType = Some ''key'',
            ObjectID = Some 5, Description = Some desc\<rparr>])"
proof -
  let ?st = "stub_store None None"
  have h: "switch_Type other_identity = None \<and>
      UpdateAccessKey ?st (merge_secret key5 other_identity) (db w0) = (None, 10)"
    by (simp add: other_identity_def switch_Type_def stub_store_def w0_def)
  from update_event_is_recorded_against_the_previous_key
      [where key = other_identity and st = ?st and oldKey = key5 and w = w0 and sa = 10] h
  have "calls (UpdateKey ?st key5 (Some other_identity) w0) = calls w0 @
        [UpdateAccessKeyCall (merge_secret key5 other_identity),
         CreateEventCall
           \<lparr>Event_ProjectID = ProjectID key5, ObjectType = Some ''key'',
            ObjectID = Some (ID key5),
            Description = Some (''Access Key '' @ Name other_identity @ '' updated'')\<rparr>]"
    by blast
  then show ?thesis by (simp add: w0_def key5_def other_identity_def)
qed

text \<open>
  C10: for a resolved key (with its project), the first store call of \<^verbatim>\<open>RemoveKey\<close> is the
  soft deletion when \<^verbatim>\<open>Get("setRemoved")\<close> is the empty string (the parameter is absent or
  empty), and the hard deletion for every other value, "false" and "0" among them; every
  later call records an event, so the request makes no other deletion.
\<close>

theorem setRemoved_decides_soft_or_hard:
  "ProjectID key = Some pid \<longrightarrow>
     (\<exists>w' r. RemoveKey st key query w = Inr w' \<and>
        calls w' = calls w @
          (if Get query ''setRemoved'' = [] then DeleteAccessKeySoftCall pid (ID key)
           else DeleteAccessKeyCall pid (ID key)) # r \<and>
        (\<forall>c \<in> set r. \<exists>e. c = CreateEventCall e))"
  using RemoveKey_calls [of key pid st query w] by blast

theorem setRemoved_decides_soft_or_hard_witness:
  "(\<exists>w' r. RemoveKey (stub_store None None) key5 Map.empty w0 = Inr w' \<and>
      calls w' = DeleteAccessKeySoftCall 7 5 # r) \<and>
   (\<exists>w' r. RemoveKey (stub_store None None) key5 [''setRemoved'' \<mapsto> ['''']] w0 = Inr w' \<and>
      calls w' = DeleteAccessKeySoftCall 7 5 # r) \<and>
   (\<exists>w' r. RemoveKey (stub_store None None) key5 [''setRemoved'' \<mapsto> [''false'']] w0 = Inr w' \<and>
      calls w' = DeleteAccessKeyCall 7 5 # r) \<and>
   (\<exists>w' r. RemoveKey (stub_store None None) key5 [''setRemoved'' \<mapsto> [''0'']] w0 = Inr w' \<and>
      calls w' = DeleteAccessKeyCall 7 5 # r)"
proof -
  have p: "ProjectID key5 = Some 7" by (simp add: key5_def)
  have g: "Get Map.empty ''setRemoved'' = []" "Get [''setRemoved'' \<mapsto> ['''']] ''setRemoved'' = []"
    "Get [''setRemoved'' \<mapsto> [''false'']] ''setRemoved'' = ''false''"
    "Get [''setRemoved'' \<mapsto> [''0'']] ''setRemoved'' = ''0''"
    by (simp_all add: Get_def)
  have z: "calls w0 = []" "ID key5 = 5" by (simp_all add: w0_def key5_def)
  note t = setRemoved_decides_soft_or_hard
      [where key = key5 and pid = 7 and st = "stub_store None None" and w = w0, rule_format, OF p]
  from t [of Map.empty] t [of "[''setRemoved'' \<mapsto> ['''']]"]
    t [of "[''setRemoved'' \<mapsto> [''false'']]"] t [of "[''setRemoved'' \<mapsto> [''0'']]"]
  show ?thesis unfolding g z by auto
qed

end
